theory Spec2Isabelle
  imports Complex_Main
begin

section \<open>Python strings\<close>

text \<open>
  A Python string is a list of characters, each standing for the code point of its number
  (U+0000 to U+00FF; texts with other characters are outside the model). \<open>str.lower\<close>
  changes the letters A to Z and the capital letters 0xC0 to 0xDE of Latin-1 (0xD7, the
  multiplication sign, is not one) and nothing else in this range.
\<close>

definition upper_letters :: "char list" where
  "upper_letters =
     ''ABCDEFGHIJKLMNOPQRSTUVWXYZ'' @
     [CHR 0xC0, CHR 0xC1, CHR 0xC2, CHR 0xC3, CHR 0xC4, CHR 0xC5, CHR 0xC6, CHR 0xC7,
      CHR 0xC8, CHR 0xC9, CHR 0xCA, CHR 0xCB, CHR 0xCC, CHR 0xCD, CHR 0xCE, CHR 0xCF,
      CHR 0xD0, CHR 0xD1, CHR 0xD2, CHR 0xD3, CHR 0xD4, CHR 0xD5, CHR 0xD6, CHR 0xD8,
      CHR 0xD9, CHR 0xDA, CHR 0xDB, CHR 0xDC, CHR 0xDD, CHR 0xDE]"

definition lower_letters :: "char list" where
  "lower_letters =
     ''abcdefghijklmnopqrstuvwxyz'' @
     [CHR 0xE0, CHR 0xE1, CHR 0xE2, CHR 0xE3, CHR 0xE4, CHR 0xE5, CHR 0xE6, CHR 0xE7,
      CHR 0xE8, CHR 0xE9, CHR 0xEA, CHR 0xEB, CHR 0xEC, CHR 0xED, CHR 0xEE, CHR 0xEF,
      CHR 0xF0, CHR 0xF1, CHR 0xF2, CHR 0xF3, CHR 0xF4, CHR 0xF5, CHR 0xF6, CHR 0xF8,
      CHR 0xF9, CHR 0xFA, CHR 0xFB, CHR 0xFC, CHR 0xFD, CHR 0xFE]"

definition lower_char :: "char \<Rightarrow> char" where
  "lower_char c = (case map_of (zip upper_letters lower_letters) c of Some d \<Rightarrow> d | None \<Rightarrow> c)"

definition lower :: "string \<Rightarrow> string" where
  "lower s = map lower_char s"

text \<open>
  The characters \<open>str.strip\<close> removes, those for which \<open>str.isspace\<close> holds: tab to
  carriage return, 0x1C to 0x1F, space, next line (0x85) and no-break space (0xA0).
\<close>

definition is_space :: "char \<Rightarrow> bool" where
  "is_space c =
     (c \<in> set [CHR 0x09, CHR 0x0A, CHR 0x0B, CHR 0x0C, CHR 0x0D,
                CHR 0x1C, CHR 0x1D, CHR 0x1E, CHR 0x1F, CHR 0x20, CHR 0x85, CHR 0xA0])"

definition strip :: "string \<Rightarrow> string" where
  "strip s = rev (dropWhile is_space (rev (dropWhile is_space s)))"

fun starts_with :: "string \<Rightarrow> string \<Rightarrow> bool" where
  "starts_with s [] = True"
| "starts_with [] (p # ps) = False"
| "starts_with (c # cs) (p # ps) = (c = p \<and> starts_with cs ps)"

text \<open>\<open>substring_in sub s\<close> is Python's \<open>sub in s\<close> on strings.\<close>

fun substring_in :: "string \<Rightarrow> string \<Rightarrow> bool" where
  "substring_in sub [] = (sub = [])"
| "substring_in sub (c # cs) = (starts_with (c # cs) sub \<or> substring_in sub cs)"

text \<open>\<open>join sep xs\<close> is Python's \<open>sep.join(xs)\<close>.\<close>

fun join :: "string \<Rightarrow> string list \<Rightarrow> string" where
  "join sep [] = []"
| "join sep [x] = x"
| "join sep (x # y # ys) = x @ sep @ join sep (y # ys)"

definition digit_char :: "nat \<Rightarrow> char" where
  "digit_char d = ''0123456789'' ! d"

fun str_nat :: "nat \<Rightarrow> string" where
  "str_nat n = (if n < 10 then [digit_char n] else str_nat (n div 10) @ [digit_char (n mod 10)])"

declare str_nat.simps [simp del]

definition str_int :: "int \<Rightarrow> string" where
  "str_int i = (if i < 0 then CHR ''-'' # str_nat (nat (- i)) else str_nat (nat i))"

section \<open>Cell values\<close>

text \<open>
  A cell of a row is classified by what the validator asks of it. It is null when
  \<open>pd.isnull\<close> holds (None, NaN, NaT); a number when it is an instance of int or float,
  as the cells of numeric columns are in a row of a table that also has a text column;
  a text when it is a str; and otherwise some other scalar (a timestamp, or the numpy
  integer that a row of an all-integer table holds), which the validator only ever
  turns into text: an \<open>Other\<close> cell carries that text. A finite float is modelled by the
  rational it denotes, and comparisons are exact.
\<close>

datatype pynum = PyInt int | PyFloat rat

datatype cell = Null | Number pynum | Text string | Other string

text \<open>
  Two builtins of Python are outside the repository and are taken as parameters:
  \<open>float_str\<close> is \<open>str\<close> on a float, and \<open>float_parses s\<close> tells whether
  \<open>float(s)\<close> returns rather than raising ValueError.
\<close>

record builtins =
  float_str :: "rat \<Rightarrow> string"
  float_parses :: "string \<Rightarrow> bool"

fun num_val :: "pynum \<Rightarrow> rat" where
  "num_val (PyInt i) = of_int i"
| "num_val (PyFloat q) = q"

fun num_str :: "builtins \<Rightarrow> pynum \<Rightarrow> string" where
  "num_str B (PyInt i) = str_int i"
| "num_str B (PyFloat q) = float_str B q"

text \<open>\<open>py_str\<close> is \<open>str(value)\<close>; a null cell read from a sheet is NaN.\<close>

fun py_str :: "builtins \<Rightarrow> cell \<Rightarrow> string" where
  "py_str B Null = ''nan''"
| "py_str B (Number n) = num_str B n"
| "py_str B (Text s) = s"
| "py_str B (Other s) = s"

text \<open>
  Truth value of a cell in \<open>if frequency_value and ...\<close>. None is false; NaN is true,
  but its text 'nan' is none of the frequency keywords, so the conjunction it guards
  is false for every null cell either way.
\<close>

fun truthy :: "cell \<Rightarrow> bool" where
  "truthy Null = False"
| "truthy (Number n) = (num_val n \<noteq> 0)"
| "truthy (Text s) = (s \<noteq> [])"
| "truthy (Other s) = True"

fun isnull :: "cell \<Rightarrow> bool" where
  "isnull Null = True"
| "isnull v = False"

text \<open>\<open>isinstance(value, str) and value.strip() == ''\<close>\<close>

fun is_blank_str :: "cell \<Rightarrow> bool" where
  "is_blank_str (Text s) = (strip s = [])"
| "is_blank_str v = False"

text \<open>\<open>isinstance(value, (int, float))\<close>\<close>

fun is_number :: "cell \<Rightarrow> bool" where
  "is_number (Number n) = True"
| "is_number v = False"

section \<open>Exceptions and float arithmetic\<close>

text \<open>The exceptions the modelled code can raise.\<close>

datatype py_error = TypeError | ZeroDivisionError | OpenError string

text \<open>\<open>str(e)\<close> for these exceptions; the text of \<open>OpenError\<close> is what the loader says.\<close>

fun error_text :: "py_error \<Rightarrow> string" where
  "error_text ZeroDivisionError = ''division by zero''"
| "error_text TypeError =
     ''int() argument must be a string, a bytes-like object or a real number, not ''
       @ [CHR 0x27] @ ''NoneType'' @ [CHR 0x27]"
| "error_text (OpenError msg) = msg"

text \<open>
  A Python float is an IEEE 754 double. \<open>round_double q\<close> is the double nearest to the
  rational \<open>q\<close>, ties to even: with \<open>2 ^ e \<le> |q| < 2 ^ (e + 1)\<close> the doubles around \<open>q\<close> are
  the multiples of \<open>2 ^ (e - 52)\<close>. Overflow and subnormal numbers are not modelled; the
  quotients and products of the validator stay between \<open>2 ^ -1022\<close> and \<open>2 ^ 1024\<close>.
\<close>

function bit_length :: "int \<Rightarrow> nat" where
  "bit_length n = (if n \<le> 0 then 0 else Suc (bit_length (n div 2)))"
  by pat_completeness auto
termination
  by (relation "measure nat") auto

declare bit_length.simps [simp del]

definition pow2 :: "int \<Rightarrow> rat" where
  "pow2 k = (if k \<ge> 0 then 2 ^ nat k else 1 / 2 ^ nat (- k))"

definition binade :: "rat \<Rightarrow> int" where
  "binade q =
     (let (a, b) = quotient_of \<bar>q\<bar>;
          k = int (bit_length a) - int (bit_length b)
      in if pow2 k \<le> \<bar>q\<bar> then k else k - 1)"

definition round_half_even :: "rat \<Rightarrow> int" where
  "round_half_even q =
     (let f = \<lfloor>q\<rfloor>; d = q - of_int f
      in if d < 1 / 2 then f else if d > 1 / 2 then f + 1 else if even f then f else f + 1)"

definition round_double :: "rat \<Rightarrow> rat" where
  "round_double q =
     (if q = 0 then 0
      else let ulp = pow2 (binade q - 52) in of_int (round_half_even (q / ulp)) * ulp)"

text \<open>
  \<open>a / b\<close> on two ints: ZeroDivisionError when \<open>b\<close> is 0, the correctly rounded quotient
  otherwise. \<open>x * y\<close> on floats (an int operand is converted first, exactly for the
  constant 100): the correctly rounded product.
\<close>

definition py_truediv :: "int \<Rightarrow> int \<Rightarrow> py_error + rat" where
  "py_truediv a b =
     (if b = 0 then Inl ZeroDivisionError else Inr (round_double (of_int a / of_int b)))"

definition float_mul :: "rat \<Rightarrow> rat \<Rightarrow> rat" where
  "float_mul x y = round_double (x * y)"

section \<open>Tables and configuration\<close>

text \<open>
  A row of a DataFrame is a Series indexed by column label: a map from column names to
  cells. \<open>iterrows\<close> yields the rows with the positions 0, 1, 2, ... of the default
  index of a sheet that was just read.
\<close>

type_synonym row = "string \<rightharpoonup> cell"

record dataframe =
  columns :: "string list"
  rows :: "row list"

text \<open>
  The \<open>validation\<close> section of the configuration: every key may be absent, and the
  validator supplies the default.
\<close>

record validation_config =
  cfg_rank_threshold :: "pynum option"
  cfg_skip_columns :: "string list option"

definition default_skip_columns :: "string list" where
  "default_skip_columns =
     [''q1'', ''q2'', ''q3'', ''q4'', ''h1'', ''h2'', ''quarterly'', ''half_yearly'', ''half-yearly'']"

definition frequency_keywords :: "string list" where
  "frequency_keywords = [''quarterly'', ''half-yearly'', ''half_yearly'']"

section \<open>DataValidator.validate_spreadsheet\<close>

record row_result =
  row_index :: nat
  status :: string
  details :: string
  missing_columns :: "string list"
  invalid_values :: "string list"
  validation_columns_checked :: nat
  frequency_info :: "cell option"

record summary =
  total_rows :: nat
  valid_rows :: nat
  error_rows :: nat
  validation_rate :: pynum
  total_columns :: nat
  validation_columns :: nat
  skipped_columns :: "string list"
  summary_columns :: "string list"
  rank_threshold_used :: pynum

datatype error_entry = RowEntry row_result | ValidationError string

record validation_result =
  sheet_name :: "string option"
  is_valid :: bool
  errors :: "error_entry list"
  warnings :: "row_result list"
  summary :: "summary option"
  product_issue_results :: "row_result list"

definition get_validation_columns :: "string list \<Rightarrow> string list \<Rightarrow> string list" where
  "get_validation_columns skip cols =
     filter (\<lambda>col. \<not> list_ex (\<lambda>s. substring_in (lower s) (lower col)) skip) cols"

definition get_percentage_columns :: "string list \<Rightarrow> string list" where
  "get_percentage_columns vcols =
     filter (\<lambda>col. substring_in ''%'' col \<or> substring_in ''percent'' (lower col)) vcols"

definition get_rank_columns :: "string list \<Rightarrow> string list" where
  "get_rank_columns vcols = filter (\<lambda>col. substring_in ''rank'' (lower col)) vcols"

fun find_freq_col :: "string list \<Rightarrow> string option" where
  "find_freq_col [] = None"
| "find_freq_col (col # cols) =
     (if substring_in ''frequency'' (lower col) then Some col else find_freq_col cols)"

definition rank_finding :: "builtins \<Rightarrow> string \<Rightarrow> pynum \<Rightarrow> pynum \<Rightarrow> string" where
  "rank_finding B col v thr =
     col @ '': '' @ num_str B v @ '' exceeds rank threshold ('' @ num_str B thr @ '')''"

definition number_finding :: "builtins \<Rightarrow> string \<Rightarrow> cell \<Rightarrow> string" where
  "number_finding B col v = col @ '': '' @ [CHR 0x27] @ py_str B v @ [CHR 0x27] @ '' is not a valid number''"

text \<open>
  One pass of the loop over the validation columns: the if/elif chain on one column,
  appending to the pair (missing_values, invalid_values).
\<close>

definition check_column ::
  "builtins \<Rightarrow> pynum \<Rightarrow> string list \<Rightarrow> string list \<Rightarrow> row \<Rightarrow>
     string list \<times> string list \<Rightarrow> string \<Rightarrow> string list \<times> string list" where
  "check_column B thr pct rk r acc col =
     (case r col of
        None \<Rightarrow> acc
      | Some v \<Rightarrow>
          if isnull v \<or> is_blank_str v then (fst acc @ [col], snd acc)
          else if col \<in> set pct then acc
          else if col \<in> set rk \<and> is_number v then
            (case v of
               Number n \<Rightarrow>
                 if num_val n > num_val thr then (fst acc, snd acc @ [rank_finding B col n thr])
                 else acc
             | _ \<Rightarrow> acc)
          else if substring_in ''outcome number'' (lower col) \<and> \<not> isnull v then
            (if float_parses B (py_str B v) then acc
             else (fst acc, snd acc @ [number_finding B col v]))
          else acc)"

definition check_columns ::
  "builtins \<Rightarrow> pynum \<Rightarrow> string list \<Rightarrow> string list \<Rightarrow> row \<Rightarrow> string list \<Rightarrow>
     string list \<times> string list" where
  "check_columns B thr pct rk r vcols = foldl (check_column B thr pct rk r) ([], []) vcols"

text \<open>
  The frequency test of a row. \<open>frequency_value_of\<close> is the variable
  \<open>frequency_value\<close>: None when the table has no frequency column, the cell of that
  column otherwise. \<open>skip_detail\<close> is the detail line appended when the row is skipped,
  and the row is validated exactly when there is none.
\<close>

definition frequency_value_of :: "string option \<Rightarrow> row \<Rightarrow> cell option" where
  "frequency_value_of freq_col r = (case freq_col of None \<Rightarrow> None | Some fc \<Rightarrow> r fc)"

definition skip_detail :: "builtins \<Rightarrow> cell option \<Rightarrow> string option" where
  "skip_detail B fv =
     (case fv of
        None \<Rightarrow> None
      | Some v \<Rightarrow>
          if truthy v \<and> lower (py_str B v) \<in> set frequency_keywords
          then Some (''Skipped due to frequency: '' @ py_str B v)
          else None)"

definition should_validate :: "builtins \<Rightarrow> cell option \<Rightarrow> bool" where
  "should_validate B fv = (skip_detail B fv = None)"

definition validate_row ::
  "builtins \<Rightarrow> pynum \<Rightarrow> string list \<Rightarrow> string list \<Rightarrow> string list \<Rightarrow> string option \<Rightarrow>
     nat \<Rightarrow> row \<Rightarrow> row_result" where
  "validate_row B thr vcols pct rk freq_col idx r =
     (let fv = frequency_value_of freq_col r in
      case skip_detail B fv of
        Some d \<Rightarrow>
          \<lparr> row_index = idx + 1, status = ''skipped'', details = join ''; '' [d],
            missing_columns = [], invalid_values = [],
            validation_columns_checked = length vcols, frequency_info = fv \<rparr>
      | None \<Rightarrow>
          let (mv, iv) = check_columns B thr pct rk r vcols;
              st1 = (if mv \<noteq> [] then ''missing'' else ''valid'');
              d1 = (if mv \<noteq> [] then [''Missing values in: '' @ join '', '' mv] else []);
              st2 = (if iv \<noteq> [] \<and> st1 = ''valid'' then ''invalid'' else st1);
              d2 = (if iv \<noteq> [] then d1 @ iv else d1)
          in \<lparr> row_index = idx + 1, status = st2,
               details = (if d2 \<noteq> [] then join ''; '' d2 else ''All validations passed''),
               missing_columns = mv, invalid_values = iv,
               validation_columns_checked = length vcols, frequency_info = fv \<rparr>)"

text \<open>The loop over \<open>df.iterrows()\<close>, with the running position.\<close>

fun validate_rows ::
  "builtins \<Rightarrow> pynum \<Rightarrow> string list \<Rightarrow> string list \<Rightarrow> string list \<Rightarrow> string option \<Rightarrow>
     nat \<Rightarrow> row list \<Rightarrow> row_result list" where
  "validate_rows B thr vcols pct rk freq_col idx [] = []"
| "validate_rows B thr vcols pct rk freq_col idx (r # rs) =
     validate_row B thr vcols pct rk freq_col idx r
       # validate_rows B thr vcols pct rk freq_col (Suc idx) rs"

text \<open>
  \<open>(valid_rows / total_rows * 100) if total_rows > 0 else 0\<close>: a float when the table
  has rows, the int 0 when it has none.
\<close>

definition validation_rate_of :: "nat \<Rightarrow> nat \<Rightarrow> py_error + pynum" where
  "validation_rate_of n_valid n_total =
     (if n_total > 0 then
        (case py_truediv (int n_valid) (int n_total) of
           Inl e \<Rightarrow> Inl e
         | Inr q \<Rightarrow> Inr (PyFloat (float_mul q 100)))
      else Inr (PyInt 0))"

definition make_summary ::
  "dataframe \<Rightarrow> string list \<Rightarrow> pynum \<Rightarrow> row_result list \<Rightarrow> py_error + summary" where
  "make_summary df vcols thr results =
     (let n_total = length (rows df);
          n_valid = length (filter (\<lambda>r. status r = ''valid'') results);
          n_error = length (filter (\<lambda>r. status r \<noteq> ''valid'') results)
      in case validation_rate_of n_valid n_total of
           Inl e \<Rightarrow> Inl e
         | Inr rate \<Rightarrow>
             Inr \<lparr> total_rows = n_total, valid_rows = n_valid, error_rows = n_error,
                   validation_rate = rate,
                   total_columns = length (columns df),
                   validation_columns = length vcols,
                   skipped_columns = filter (\<lambda>col. col \<notin> set vcols) (columns df),
                   summary_columns = columns df,
                   rank_threshold_used = thr \<rparr>)"

text \<open>
  The report of the except clause of \<open>validate_spreadsheet\<close>, which catches every
  exception raised in its body: no sheet name, no row verdicts, an empty summary and one
  entry that carries the text of the exception.
\<close>

definition failure_report :: "string \<Rightarrow> validation_result" where
  "failure_report msg =
     \<lparr> sheet_name = None, is_valid = False, errors = [ValidationError msg],
       warnings = [], summary = None, product_issue_results = [] \<rparr>"

text \<open>
  \<open>validate_spreadsheet\<close> on the outcome of the parser: \<open>Inl msg\<close> when
  \<open>parse_excel_file\<close> raised (the text of the exception), \<open>Inr df\<close> when it returned
  the table. An exception raised while the summary is computed ends in the except
  clause as well. The \<open>missing_data_details\<close> entry of the report is left out.
\<close>

definition validate_spreadsheet ::
  "builtins \<Rightarrow> validation_config \<Rightarrow> string option \<Rightarrow> string + dataframe \<Rightarrow> validation_result" where
  "validate_spreadsheet B cfg sheet parsed =
     (case parsed of
        Inl msg \<Rightarrow> failure_report msg
      | Inr df \<Rightarrow>
          let thr = (case cfg_rank_threshold cfg of None \<Rightarrow> PyInt 5 | Some t \<Rightarrow> t);
              skip = (case cfg_skip_columns cfg of None \<Rightarrow> default_skip_columns | Some s \<Rightarrow> s);
              vcols = get_validation_columns skip (columns df);
              pct = get_percentage_columns vcols;
              rk = get_rank_columns vcols;
              freq_col = find_freq_col (columns df);
              results = validate_rows B thr vcols pct rk freq_col 0 (rows df)
          in case make_summary df vcols thr results of
               Inl e \<Rightarrow> failure_report (error_text e)
             | Inr s \<Rightarrow>
                 \<lparr> sheet_name = sheet,
                   is_valid = list_all (\<lambda>r. status r = ''valid'') results,
                   errors = map RowEntry
                              (filter (\<lambda>r. status r \<in> set [''error'', ''invalid'']) results),
                   warnings = filter (\<lambda>r. status r = ''missing'') results,
                   summary = Some s,
                   product_issue_results = results \<rparr>)"

section \<open>The notifier\<close>

text \<open>
  EmailNotifier is an external collaborator. Both of its entry points catch every
  exception and return a boolean, so a call never raises. The model keeps the list of
  the calls made so far; whether a call succeeds is up to the notifier and may depend
  on that list.
\<close>

record aggregated_result =
  agg_file_path :: string
  total_sheets :: nat
  agg_is_valid :: bool
  agg_errors :: "(string \<times> error_entry) list"
  sheets_processed :: "string list"
  total_errors :: nat
  errors_by_sheet :: "(string \<times> nat) list"
  periodic_trigger :: bool
  message :: "string option"

datatype report = SheetReport validation_result | AggregateReport aggregated_result

datatype notifier_call =
    send_missing_data_notification report
  | send_completion_notification report

type_synonym notifier = "notifier_call list \<Rightarrow> notifier_call \<Rightarrow> bool"

section \<open>ValidationWorkflow.run\<close>

record sheet_result =
  sr_validation_result :: validation_result
  sr_notification_sent :: bool
  sr_notification_type :: "string option"
  sr_workflow_status :: string

text \<open>
  \<open>run\<close> validates one sheet and notifies. The summary that \<open>validate_spreadsheet\<close>
  builds never has a 'dataframe' key, so \<open>df\<close> is None, the loop over the product
  schedule is not entered and \<open>notification_sent\<close> is still False when the fallback is
  reached: the fallback always runs. Neither the validator nor the notifier raises, so
  the except clause of \<open>run\<close> is not reached.
\<close>

definition run ::
  "builtins \<Rightarrow> validation_config \<Rightarrow> notifier \<Rightarrow> string option \<Rightarrow> string + dataframe \<Rightarrow>
     notifier_call list \<Rightarrow> sheet_result \<times> notifier_call list" where
  "run B cfg N sheet parsed calls =
     (let vr = validate_spreadsheet B cfg sheet parsed in
      if \<not> is_valid vr then
        let c = send_missing_data_notification (SheetReport vr) in
        (\<lparr> sr_validation_result = vr, sr_notification_sent = N calls c,
           sr_notification_type = Some ''missing_data'',
           sr_workflow_status = ''completed_with_issues'' \<rparr>, calls @ [c])
      else
        let c = send_completion_notification (SheetReport vr) in
        (\<lparr> sr_validation_result = vr, sr_notification_sent = N calls c,
           sr_notification_type = Some ''completion'',
           sr_workflow_status = ''completed_success'' \<rparr>, calls @ [c]))"

section \<open>The periodic trigger\<close>

text \<open>
  An entry of the product schedule, with each key possibly absent
  (\<open>schedule.get\<close> gives None), and the two fields of the current date the check reads.
\<close>

record schedule =
  frequency :: "string option"
  deadline_day :: "int option"
  deadline_months :: "int list option"
  deadline_month :: "int option"

record date =
  day :: int
  month :: int

text \<open>\<open>int(deadline_day)\<close>: \<open>int(None)\<close> raises TypeError.\<close>

definition py_int :: "int option \<Rightarrow> py_error + int" where
  "py_int v = (case v of None \<Rightarrow> Inl TypeError | Some n \<Rightarrow> Inr n)"

text \<open>
  One pass of the loop over the schedule: \<open>Inr True\<close> when the pass sets
  \<open>should_send_periodic\<close>, \<open>Inr False\<close> when it leaves it alone, \<open>Inl\<close> when it raises.
  \<open>schedule_elif\<close> is the part of the chain after the monthly test.
\<close>

definition schedule_elif :: "date \<Rightarrow> schedule \<Rightarrow> py_error + bool" where
  "schedule_elif now s =
     (if frequency s = Some ''bi-annual'' then
        (let months = (case deadline_months s of None \<Rightarrow> [] | Some ms \<Rightarrow> ms) in
         if month now \<in> set months then
           (case py_int (deadline_day s) of
              Inl e \<Rightarrow> Inl e
            | Inr d \<Rightarrow> Inr (day now \<ge> d - 7))
         else Inr False)
      else if frequency s = Some ''annual'' then
        (if Some (month now) = deadline_month s then
           (case py_int (deadline_day s) of
              Inl e \<Rightarrow> Inl e
            | Inr d \<Rightarrow> Inr (day now \<ge> d - 28))
         else Inr False)
      else Inr False)"

definition schedule_due :: "date \<Rightarrow> schedule \<Rightarrow> py_error + bool" where
  "schedule_due now s =
     (if frequency s = Some ''monthly'' then
        (case py_int (deadline_day s) of
           Inl e \<Rightarrow> Inl e
         | Inr d \<Rightarrow> if day now \<ge> d - 7 then Inr True else schedule_elif now s)
      else schedule_elif now s)"

fun periodic_loop :: "date \<Rightarrow> (string \<times> schedule) list \<Rightarrow> bool \<Rightarrow> py_error + bool" where
  "periodic_loop now [] should_send = Inr should_send"
| "periodic_loop now ((product, s) # rest) should_send =
     (case schedule_due now s of
        Inl e \<Rightarrow> Inl e
      | Inr d \<Rightarrow> periodic_loop now rest (should_send \<or> d))"

section \<open>ValidationWorkflow.run_all_sheets\<close>

record workflow_result =
  all_sheets_results :: "string \<rightharpoonup> sheet_result"
  aggregated :: "aggregated_result option"
  notification_sent :: bool
  notification_type :: "string option"
  workflow_status :: string
  workflow_error :: "py_error option"

text \<open>
  The loop over the sheets. The state is the dictionary of per-sheet results,
  \<open>all_errors\<close>, \<open>all_valid\<close> and the calls made to the notifier. Each sheet comes with what the
  parser gives for it.
\<close>

type_synonym sheets_state =
  "(string \<rightharpoonup> sheet_result) \<times> (string \<times> error_entry) list \<times> bool \<times> notifier_call list"

fun sheets_loop ::
  "builtins \<Rightarrow> validation_config \<Rightarrow> notifier \<Rightarrow> (string \<times> (string + dataframe)) list \<Rightarrow>
     sheets_state \<Rightarrow> sheets_state" where
  "sheets_loop B cfg N [] st = st"
| "sheets_loop B cfg N ((sheet, parsed) # rest) (results, all_errors, all_valid, calls) =
     (let (sr, calls') = run B cfg N (Some sheet) parsed calls;
          vr = sr_validation_result sr
      in if \<not> is_valid vr then
           sheets_loop B cfg N rest
             (results(sheet \<mapsto> sr), all_errors @ map (Pair sheet) (errors vr), False, calls')
         else
           sheets_loop B cfg N rest (results(sheet \<mapsto> sr), all_errors, all_valid, calls'))"

definition issues_message :: "string \<Rightarrow> string" where
  "issues_message file_path =
     ''File '' @ [CHR 0x27] @ file_path @ [CHR 0x27]
       @ '' has missing/invalid data. Please check the attached summary.''"

definition success_message :: "string \<Rightarrow> string" where
  "success_message file_path =
     ''File '' @ [CHR 0x27] @ file_path @ [CHR 0x27]
       @ '' has no issues. All sheets validated successfully.''"

text \<open>The dictionary \<open>aggregated_result\<close>, before a message is added to it.\<close>

definition make_aggregated ::
  "string \<Rightarrow> string list \<Rightarrow> bool \<Rightarrow> (string \<times> error_entry) list \<Rightarrow> bool \<Rightarrow> aggregated_result" where
  "make_aggregated file_path sheet_names all_valid all_errors should_send_periodic =
     \<lparr> agg_file_path = file_path,
       total_sheets = length sheet_names,
       agg_is_valid = all_valid,
       agg_errors = all_errors,
       sheets_processed = sheet_names,
       total_errors = length all_errors,
       errors_by_sheet =
         map (\<lambda>sheet. (sheet, length (filter (\<lambda>e. fst e = sheet) all_errors))) sheet_names,
       periodic_trigger = should_send_periodic,
       message = None \<rparr>"

text \<open>
  The single summary notification of the run: the two-way branch on
  \<open>not all_valid or should_send_periodic\<close>. The message is stored in the aggregate, which
  is the object the workflow result refers to.
\<close>

definition dispatch ::
  "notifier \<Rightarrow> string \<Rightarrow> (string \<rightharpoonup> sheet_result) \<Rightarrow> bool \<Rightarrow> bool \<Rightarrow> aggregated_result \<Rightarrow>
     notifier_call list \<Rightarrow> workflow_result \<times> notifier_call list" where
  "dispatch N file_path results all_valid should_send_periodic agg calls =
     (if \<not> all_valid \<or> should_send_periodic then
        let agg1 = agg\<lparr>message := Some (issues_message file_path)\<rparr>;
            c = send_missing_data_notification (AggregateReport agg1)
        in (\<lparr> all_sheets_results = results, aggregated = Some agg1,
               notification_sent = N calls c,
               notification_type = Some ''missing_data_aggregated'',
               workflow_status = ''completed_with_issues'',
               workflow_error = None \<rparr>, calls @ [c])
      else
        let agg1 = agg\<lparr>message := Some (success_message file_path)\<rparr>;
            c = send_completion_notification (AggregateReport agg1)
        in (\<lparr> all_sheets_results = results, aggregated = Some agg1,
               notification_sent = N calls c,
               notification_type = Some ''completion_aggregated'',
               workflow_status = ''completed_success'',
               workflow_error = None \<rparr>, calls @ [c]))"

text \<open>
  \<open>run_all_sheets\<close> on a workbook: \<open>Inl msg\<close> when \<open>pd.ExcelFile\<close> raises, \<open>Inr sheets\<close>
  with the sheets in the order of \<open>sheet_names\<close> otherwise. The schedule is the
  attribute \<open>product_schedule\<close> of the validator as the method finds it, in the order of
  its items, \<open>now\<close> the current date. Any exception ends in the except clause: status
  'failed', no aggregate, nothing sent.
\<close>

definition run_all_sheets ::
  "builtins \<Rightarrow> validation_config \<Rightarrow> notifier \<Rightarrow> (string \<times> schedule) list \<Rightarrow> date \<Rightarrow> string \<Rightarrow>
     string + (string \<times> (string + dataframe)) list \<Rightarrow> notifier_call list \<Rightarrow>
     workflow_result \<times> notifier_call list" where
  "run_all_sheets B cfg N product_schedule now file_path workbook calls =
     (case workbook of
        Inl msg \<Rightarrow>
          (\<lparr> all_sheets_results = Map.empty, aggregated = None, notification_sent = False,
             notification_type = None, workflow_status = ''failed'',
             workflow_error = Some (OpenError msg) \<rparr>, calls)
      | Inr sheets \<Rightarrow>
          (case sheets_loop B cfg N sheets (Map.empty, [], True, calls) of
             (results, all_errors, all_valid, calls1) \<Rightarrow>
               (case periodic_loop now product_schedule False of
                  Inl e \<Rightarrow>
                    (\<lparr> all_sheets_results = results, aggregated = None,
                       notification_sent = False, notification_type = None,
                       workflow_status = ''failed'', workflow_error = Some e \<rparr>, calls1)
                | Inr should_send_periodic \<Rightarrow>
                    dispatch N file_path results all_valid should_send_periodic
                      (make_aggregated file_path (map fst sheets) all_valid all_errors
                         should_send_periodic)
                      calls1)))"

text \<open>
  The schedule a run of the program reads. \<open>run_all_sheets\<close> takes it from
  \<open>self.validator.product_schedule\<close>, which \<open>DataValidator.__init__\<close> sets to
  \<open>getattr(config, 'product_schedule', {})\<close>. The class \<open>Config\<close> has the attributes
  \<open>config_path\<close> and \<open>_config\<close>, its methods and five properties, and neither an
  attribute \<open>product_schedule\<close> nor a \<open>__getattr__\<close>; whatever the configuration file
  holds, the lookup fails and the validator gets the default, the empty dictionary.
  Nothing in the repository assigns the attribute afterwards. So \<open>ValidationWorkflow()\<close>,
  as the user interface builds it, runs \<open>run_all_sheets\<close> on the empty schedule.
\<close>

definition validator_product_schedule :: "(string \<times> schedule) list" where
  "validator_product_schedule = []"

definition workflow_run_all_sheets ::
  "builtins \<Rightarrow> validation_config \<Rightarrow> notifier \<Rightarrow> date \<Rightarrow> string \<Rightarrow>
     string + (string \<times> (string + dataframe)) list \<Rightarrow> notifier_call list \<Rightarrow>
     workflow_result \<times> notifier_call list" where
  "workflow_run_all_sheets B cfg N now file_path workbook calls =
     run_all_sheets B cfg N validator_product_schedule now file_path workbook calls"

section \<open>Notions used in the statements\<close>

subsection \<open>Missing values as the specification words them\<close>

text \<open>
  A value is missing if it is null or, for a text, empty or made of whitespace only.
  A column is missing in a row when the value the row holds for it is missing. (A row of
  a table holds a value for every column of the table.)
\<close>

fun cell_missing :: "cell \<Rightarrow> bool" where
  "cell_missing Null = True"
| "cell_missing (Text s) = list_all is_space s"
| "cell_missing v = False"

definition column_missing :: "row \<Rightarrow> string \<Rightarrow> bool" where
  "column_missing r col = (case r col of None \<Rightarrow> False | Some v \<Rightarrow> cell_missing v)"

subsection \<open>The decision rule as the specification words it\<close>




subsection \<open>Sheets of a workbook\<close>

text \<open>The row verdicts of a parsed table, with the parameters the validator derives.\<close>

definition row_verdicts :: "builtins \<Rightarrow> validation_config \<Rightarrow> dataframe \<Rightarrow> row_result list" where
  "row_verdicts B cfg df =
     (let thr = (case cfg_rank_threshold cfg of None \<Rightarrow> PyInt 5 | Some t \<Rightarrow> t);
          skip = (case cfg_skip_columns cfg of None \<Rightarrow> default_skip_columns | Some s \<Rightarrow> s);
          vcols = get_validation_columns skip (columns df);
          pct = get_percentage_columns vcols;
          rk = get_rank_columns vcols;
          freq_col = find_freq_col (columns df)
      in validate_rows B thr vcols pct rk freq_col 0 (rows df))"

text \<open>
  What one sheet of a workbook contributes to a run: its report, the call \<open>run\<close> makes
  for it, and the entries it adds to \<open>all_errors\<close>.
\<close>

definition sheet_report ::
  "builtins \<Rightarrow> validation_config \<Rightarrow> string \<times> (string + dataframe) \<Rightarrow> validation_result" where
  "sheet_report B cfg sp = validate_spreadsheet B cfg (Some (fst sp)) (snd sp)"

definition sheet_call ::
  "builtins \<Rightarrow> validation_config \<Rightarrow> string \<times> (string + dataframe) \<Rightarrow> notifier_call" where
  "sheet_call B cfg sp =
     (if is_valid (sheet_report B cfg sp)
      then send_completion_notification (SheetReport (sheet_report B cfg sp))
      else send_missing_data_notification (SheetReport (sheet_report B cfg sp)))"

definition sheet_errors ::
  "builtins \<Rightarrow> validation_config \<Rightarrow> string \<times> (string + dataframe) \<Rightarrow>
     (string \<times> error_entry) list" where
  "sheet_errors B cfg sp =
     (if is_valid (sheet_report B cfg sp) then []
      else map (Pair (fst sp)) (errors (sheet_report B cfg sp)))"

definition merged_errors ::
  "builtins \<Rightarrow> validation_config \<Rightarrow> (string \<times> (string + dataframe)) list \<Rightarrow>
     (string \<times> error_entry) list" where
  "merged_errors B cfg sheets = concat (map (sheet_errors B cfg) sheets)"

definition sheets_valid ::
  "builtins \<Rightarrow> validation_config \<Rightarrow> (string \<times> (string + dataframe)) list \<Rightarrow> bool" where
  "sheets_valid B cfg sheets = list_all (\<lambda>sp. is_valid (sheet_report B cfg sp)) sheets"

subsection \<open>The recurrence rule as the specification words it\<close>

text \<open>
  A recurrence schedule with well-formed parameters is one of three shapes: monthly with
  a deadline day, bi-annual with deadline months and a deadline day, annual with a
  deadline month and a deadline day. \<open>spec_due\<close> is the rule of the specification for
  each shape; \<open>well_formed\<close> reads the shape off a schedule entry of the configuration,
  and gives None when the tag is unknown or a parameter of the shape is absent.
\<close>

datatype recurrence = Monthly int | BiAnnual "int list" int | Annual int int

fun spec_due :: "date \<Rightarrow> recurrence \<Rightarrow> bool" where
  "spec_due now (Monthly d) = (day now \<ge> d - 7)"
| "spec_due now (BiAnnual ms d) = (month now \<in> set ms \<and> day now \<ge> d - 7)"
| "spec_due now (Annual m d) = (month now = m \<and> day now \<ge> d - 28)"

definition well_formed :: "schedule \<Rightarrow> recurrence option" where
  "well_formed s =
     (if frequency s = Some ''monthly'' then
        (case deadline_day s of Some d \<Rightarrow> Some (Monthly d) | None \<Rightarrow> None)
      else if frequency s = Some ''bi-annual'' then
        (case (deadline_months s, deadline_day s) of
           (Some ms, Some d) \<Rightarrow> Some (BiAnnual ms d)
         | _ \<Rightarrow> None)
      else if frequency s = Some ''annual'' then
        (case (deadline_month s, deadline_day s) of
           (Some m, Some d) \<Rightarrow> Some (Annual m d)
         | _ \<Rightarrow> None)
      else None)"


subsection \<open>Example inputs\<close>

text \<open>
  Stand-ins for the two builtins, exact on the values the examples hold (integers and
  texts): a float prints as its integer part followed by '.0', and a text parses as a
  float when it is a non-empty run of digits.
\<close>

definition example_builtins :: builtins where
  "example_builtins =
     \<lparr> float_str = (\<lambda>q. str_int \<lfloor>q\<rfloor> @ ''.0''),
       float_parses = (\<lambda>s. s \<noteq> [] \<and> list_all (\<lambda>c. c \<in> set ''0123456789'') s) \<rparr>"

definition example_config :: validation_config where
  "example_config = \<lparr> cfg_rank_threshold = None, cfg_skip_columns = None \<rparr>"

definition always_sent :: notifier where
  "always_sent calls c = True"

definition mk_schedule ::
  "string option \<Rightarrow> int option \<Rightarrow> int list option \<Rightarrow> int option \<Rightarrow> schedule" where
  "mk_schedule f d ms m =
     \<lparr> frequency = f, deadline_day = d, deadline_months = ms, deadline_month = m \<rparr>"

definition march_25 :: date where
  "march_25 = \<lparr> day = 25, month = 3 \<rparr>"

definition three_schedules :: "(string \<times> schedule) list" where
  "three_schedules =
     [(''A'', mk_schedule (Some ''monthly'') (Some 40) None None),
      (''B'', mk_schedule (Some ''bi-annual'') (Some 30) (Some [6, 12]) None),
      (''C'', mk_schedule (Some ''annual'') (Some 31) None (Some 3))]"



definition blank_cells_row :: row where
  "blank_cells_row =
     [''Name'' \<mapsto> Null, ''Note'' \<mapsto> Text [CHR 0x20, CHR 0xA0, CHR 0x09],
      ''Unit'' \<mapsto> Text '' kg '', ''Rank'' \<mapsto> Number (PyInt 7)]"

definition rank_row_7 :: row where
  "rank_row_7 = [''Name'' \<mapsto> Text ''a'', ''Rank'' \<mapsto> Number (PyInt 7)]"

definition rank_row_5 :: row where
  "rank_row_5 = [''Name'' \<mapsto> Text ''a'', ''Rank'' \<mapsto> Number (PyInt 5)]"

definition rank_percent_row :: row where
  "rank_percent_row = [''Name'' \<mapsto> Text ''a'', ''Rank %'' \<mapsto> Number (PyInt 7)]"

definition rank_percent_table :: dataframe where
  "rank_percent_table = \<lparr> columns = [''Name'', ''Rank %''], rows = [rank_percent_row] \<rparr>"

definition frequency_table :: dataframe where
  "frequency_table =
     \<lparr> columns = [''Name'', ''Frequency''],
       rows = [[''Name'' \<mapsto> Text ''a'', ''Frequency'' \<mapsto> Text ''Monthly''],
               [''Name'' \<mapsto> Null, ''Frequency'' \<mapsto> Text ''Quarterly'']] \<rparr>"

definition two_of_three_table :: dataframe where
  "two_of_three_table =
     \<lparr> columns = [''Name'', ''Rank''],
       rows = [[''Name'' \<mapsto> Text ''a'', ''Rank'' \<mapsto> Number (PyInt 3)],
               [''Name'' \<mapsto> Null, ''Rank'' \<mapsto> Number (PyInt 3)],
               [''Name'' \<mapsto> Text ''c'', ''Rank'' \<mapsto> Number (PyInt 2)]] \<rparr>"

definition empty_table :: dataframe where
  "empty_table = \<lparr> columns = [''ID'', ''Name''], rows = [] \<rparr>"


definition mixed_table :: dataframe where
  "mixed_table =
     \<lparr> columns = [''Name'', ''Frequency'', ''Rank''],
       rows = [[''Name'' \<mapsto> Text ''a'', ''Frequency'' \<mapsto> Text ''Monthly'', ''Rank'' \<mapsto> Number (PyInt 3)],
               [''Name'' \<mapsto> Null, ''Frequency'' \<mapsto> Text ''Monthly'', ''Rank'' \<mapsto> Number (PyInt 3)],
               [''Name'' \<mapsto> Text ''c'', ''Frequency'' \<mapsto> Text ''Quarterly'', ''Rank'' \<mapsto> Number (PyInt 3)],
               [''Name'' \<mapsto> Text ''d'', ''Frequency'' \<mapsto> Text ''Monthly'', ''Rank'' \<mapsto> Number (PyInt 7)]] \<rparr>"

definition missing_table :: dataframe where
  "missing_table =
     \<lparr> columns = [''Name'', ''Rank''],
       rows = [[''Name'' \<mapsto> Null, ''Rank'' \<mapsto> Number (PyInt 3)]] \<rparr>"

definition skipped_table :: dataframe where
  "skipped_table =
     \<lparr> columns = [''Name'', ''Frequency''],
       rows = [[''Name'' \<mapsto> Text ''a'', ''Frequency'' \<mapsto> Text ''Quarterly''],
               [''Name'' \<mapsto> Text ''b'', ''Frequency'' \<mapsto> Text ''half-yearly'']] \<rparr>"

text \<open>
  Digests for reading off results: the entry point a call to the notifier goes to with the
  sheet it reports on (None for the aggregate), and the sheet, row index and status of an
  entry of the merged error list.
\<close>

fun call_summary :: "notifier_call \<Rightarrow> string \<times> string option" where
  "call_summary (send_missing_data_notification (SheetReport vr)) =
     (''send_missing_data_notification'', sheet_name vr)"
| "call_summary (send_missing_data_notification (AggregateReport agg)) =
     (''send_missing_data_notification'', None)"
| "call_summary (send_completion_notification (SheetReport vr)) =
     (''send_completion_notification'', sheet_name vr)"
| "call_summary (send_completion_notification (AggregateReport agg)) =
     (''send_completion_notification'', None)"

fun entry_summary :: "string \<times> error_entry \<Rightarrow> string \<times> (nat \<times> string) option" where
  "entry_summary (sheet, RowEntry r) = (sheet, Some (row_index r, status r))"
| "entry_summary (sheet, ValidationError msg) = (sheet, None)"

section \<open>The periodic trigger: lemmas\<close>

lemma schedule_due_well_formed:
  "well_formed s = Some r \<Longrightarrow> schedule_due now s = Inr (spec_due now r)"
  by (auto simp: well_formed_def schedule_due_def schedule_elif_def py_int_def
           split: if_splits option.splits)

lemma periodic_loop_well_formed:
  "map (\<lambda>(p, s). well_formed s) scheds = map Some rs \<Longrightarrow>
   periodic_loop now scheds acc = Inr (acc \<or> list_ex (spec_due now) rs)"
proof (induction scheds arbitrary: rs acc)
  case Nil
  then show ?case by simp
next
  case (Cons ps scheds)
  obtain p s where ps: "ps = (p, s)" by (cases ps)
  from Cons.prems ps obtain r rs' where rs: "rs = r # rs'" and r: "well_formed s = Some r"
    and rest: "map (\<lambda>(p, s). well_formed s) scheds = map Some rs'"
    by (cases rs) auto
  show ?case
    using Cons.IH [OF rest] schedule_due_well_formed [OF r, of now]
    by (auto simp: ps rs)
qed



lemma schedule_due_monthly_no_day:
  "frequency s = Some ''monthly'' \<Longrightarrow> deadline_day s = None \<Longrightarrow>
   schedule_due now s = Inl TypeError"
  by (simp add: schedule_due_def py_int_def)

section \<open>The sheet loop and the run: lemmas\<close>

lemma run_calls:
  "snd (run B cfg N (Some sheet) parsed calls) = calls @ [sheet_call B cfg (sheet, parsed)]"
  by (simp add: run_def sheet_call_def sheet_report_def Let_def)

lemma run_report:
  "sr_validation_result (fst (run B cfg N (Some sheet) parsed calls)) =
     sheet_report B cfg (sheet, parsed)"
  by (simp add: run_def sheet_report_def Let_def)

lemma sheets_loop_result:
  "\<exists>results. sheets_loop B cfg N sheets (res, errs, valid, calls) =
     (results,
      errs @ concat (map (sheet_errors B cfg) sheets),
      valid \<and> list_all (\<lambda>sp. is_valid (sheet_report B cfg sp)) sheets,
      calls @ map (sheet_call B cfg) sheets)"
proof (induction sheets arbitrary: res errs valid calls)
  case Nil
  then show ?case by simp
next
  case (Cons sp sheets)
  obtain sheet parsed where sp: "sp = (sheet, parsed)" by (cases sp)
  obtain sr calls' where r: "run B cfg N (Some sheet) parsed calls = (sr, calls')"
    by (cases "run B cfg N (Some sheet) parsed calls")
  have c: "calls' = calls @ [sheet_call B cfg (sheet, parsed)]"
    using run_calls [of B cfg N sheet parsed calls] r by simp
  have v: "sr_validation_result sr = sheet_report B cfg (sheet, parsed)"
    using run_report [of B cfg N sheet parsed calls] r by simp
  have e: "sheet_errors B cfg (sheet, parsed) =
      (if is_valid (sheet_report B cfg (sheet, parsed)) then []
       else map (Pair sheet) (errors (sheet_report B cfg (sheet, parsed))))"
    by (simp add: sheet_errors_def)
  show ?case
  proof (cases "is_valid (sheet_report B cfg (sheet, parsed))")
    case True
    obtain results where
      "sheets_loop B cfg N sheets (res(sheet \<mapsto> sr), errs, valid, calls') =
        (results, errs @ concat (map (sheet_errors B cfg) sheets),
         valid \<and> list_all (\<lambda>sp. is_valid (sheet_report B cfg sp)) sheets,
         calls' @ map (sheet_call B cfg) sheets)"
      using Cons.IH by blast
    then show ?thesis using True
      by (simp add: sp r v c e)
  next
    case False
    obtain results where
      "sheets_loop B cfg N sheets
          (res(sheet \<mapsto> sr),
           errs @ map (Pair sheet) (errors (sheet_report B cfg (sheet, parsed))), False, calls') =
        (results,
         (errs @ map (Pair sheet) (errors (sheet_report B cfg (sheet, parsed))))
           @ concat (map (sheet_errors B cfg) sheets),
         False \<and> list_all (\<lambda>sp. is_valid (sheet_report B cfg sp)) sheets,
         calls' @ map (sheet_call B cfg) sheets)"
      using Cons.IH by blast
    then show ?thesis using False
      by (simp add: sp r v c e)
  qed
qed

lemma run_all_sheets_failed:
  assumes "periodic_loop now scheds False = Inl e"
  shows "\<exists>results. run_all_sheets B cfg N scheds now fp (Inr sheets) calls =
     (\<lparr> all_sheets_results = results, aggregated = None, notification_sent = False,
        notification_type = None, workflow_status = ''failed'', workflow_error = Some e \<rparr>,
      calls @ map (sheet_call B cfg) sheets)"
proof -
  obtain results where
    "sheets_loop B cfg N sheets (Map.empty, [], True, calls) =
       (results, [] @ concat (map (sheet_errors B cfg) sheets),
        True \<and> list_all (\<lambda>sp. is_valid (sheet_report B cfg sp)) sheets,
        calls @ map (sheet_call B cfg) sheets)"
    using sheets_loop_result by blast
  then show ?thesis using assms
    by (simp add: run_all_sheets_def)
qed

lemma run_all_sheets_dispatch:
  assumes "periodic_loop now scheds False = Inr p"
  shows "\<exists>results. run_all_sheets B cfg N scheds now fp (Inr sheets) calls =
     dispatch N fp results (sheets_valid B cfg sheets) p
       (make_aggregated fp (map fst sheets) (sheets_valid B cfg sheets)
          (merged_errors B cfg sheets) p)
       (calls @ map (sheet_call B cfg) sheets)"
proof -
  obtain results where
    "sheets_loop B cfg N sheets (Map.empty, [], True, calls) =
       (results, [] @ concat (map (sheet_errors B cfg) sheets),
        True \<and> list_all (\<lambda>sp. is_valid (sheet_report B cfg sp)) sheets,
        calls @ map (sheet_call B cfg) sheets)"
    using sheets_loop_result by blast
  then show ?thesis using assms
    by (auto simp: run_all_sheets_def sheets_valid_def merged_errors_def)
qed

section \<open>The periodic trigger: claims\<close>

text \<open>
  C5. For every current date and every list of schedules with well-formed parameters,
  the trigger evaluation returns, and its result is the disjunction over the schedules
  of the rule of the specification: monthly, day \<ge> deadline_day - 7 in any month;
  bi-annual, month among the deadline months and day \<ge> deadline_day - 7; annual, month
  equal to the deadline month and day \<ge> deadline_day - 28.
\<close>

theorem periodic_trigger_is_disjunction:
  "map (\<lambda>(p, s). well_formed s) scheds = map Some rs \<Longrightarrow>
   periodic_loop now scheds False = Inr (list_ex (spec_due now) rs)"
  using periodic_loop_well_formed [of scheds rs now False] by simp

theorem periodic_trigger_is_disjunction_witness:
  "map (\<lambda>(p, s). well_formed s) three_schedules
     = map Some [Monthly 40, BiAnnual [6, 12] 30, Annual 3 31]
   \<and> periodic_loop march_25 three_schedules False = Inr True"
  using periodic_trigger_is_disjunction
    [of three_schedules "[Monthly 40, BiAnnual [6, 12] 30, Annual 3 31]" march_25]
  by (simp add: three_schedules_def mk_schedule_def well_formed_def march_25_def)



section \<open>The row validator: lemmas\<close>

lemma strip_empty: "strip s = [] \<longleftrightarrow> list_all is_space s"
proof
  assume e: "strip s = []"
  show "list_all is_space s"
  proof (rule ccontr)
    assume "\<not> list_all is_space s"
    then have ne: "dropWhile is_space s \<noteq> []"
      by (simp add: list_all_iff dropWhile_eq_Nil_conv)
    then have "\<not> is_space (hd (dropWhile is_space s))"
      by (rule hd_dropWhile)
    moreover have "hd (dropWhile is_space s) \<in> set (dropWhile is_space s)"
      using ne by simp
    moreover have "\<forall>c\<in>set (dropWhile is_space s). is_space c"
      using e by (simp add: strip_def dropWhile_eq_Nil_conv)
    ultimately show False by blast
  qed
next
  assume "list_all is_space s"
  then have d: "dropWhile is_space s = []"
    by (induction s) auto
  show "strip s = []"
    unfolding strip_def d by simp
qed

lemma missing_test: "(isnull v \<or> is_blank_str v) = cell_missing v"
  by (cases v) (simp_all add: strip_empty)

lemma validation_rate_of_returns:
  "validation_rate_of v n =
     Inr (if n > 0
          then PyFloat (round_double (round_double (of_nat v / of_nat n) * 100))
          else PyInt 0)"
  by (simp add: validation_rate_of_def py_truediv_def float_mul_def)

lemma validate_spreadsheet_parsed:
  "\<exists>s. validate_spreadsheet B cfg sheet (Inr df) =
          \<lparr> sheet_name = sheet,
            is_valid = list_all (\<lambda>r. status r = ''valid'') (row_verdicts B cfg df),
            errors = map RowEntry
                       (filter (\<lambda>r. status r \<in> set [''error'', ''invalid''])
                          (row_verdicts B cfg df)),
            warnings = filter (\<lambda>r. status r = ''missing'') (row_verdicts B cfg df),
            summary = Some s,
            product_issue_results = row_verdicts B cfg df \<rparr>
     \<and> total_rows s = length (rows df)
     \<and> valid_rows s = length (filter (\<lambda>r. status r = ''valid'') (row_verdicts B cfg df))
     \<and> error_rows s = length (filter (\<lambda>r. status r \<noteq> ''valid'') (row_verdicts B cfg df))
     \<and> validation_rate_of (valid_rows s) (total_rows s) = Inr (validation_rate s)"
  by (simp add: validate_spreadsheet_def make_summary_def row_verdicts_def Let_def
        validation_rate_of_returns)

lemma product_issue_results_verdicts:
  "product_issue_results (validate_spreadsheet B cfg sheet (Inr df)) = row_verdicts B cfg df"
  using validate_spreadsheet_parsed [of B cfg sheet df] by auto

lemma is_valid_verdicts:
  "is_valid (validate_spreadsheet B cfg sheet (Inr df))
     = list_all (\<lambda>r. status r = ''valid'') (row_verdicts B cfg df)"
  using validate_spreadsheet_parsed [of B cfg sheet df] by auto

lemma errors_verdicts:
  "errors (validate_spreadsheet B cfg sheet (Inr df))
     = map RowEntry
         (filter (\<lambda>r. status r \<in> set [''error'', ''invalid'']) (row_verdicts B cfg df))"
  using validate_spreadsheet_parsed [of B cfg sheet df] by auto

lemma error_rows_verdicts:
  "map_option error_rows (summary (validate_spreadsheet B cfg sheet (Inr df)))
     = Some (length (filter (\<lambda>r. status r \<noteq> ''valid'') (row_verdicts B cfg df)))"
  using validate_spreadsheet_parsed [of B cfg sheet df] by auto

lemma validate_row_validated:
  assumes "should_validate B (frequency_value_of freq_col r)"
  shows "validate_row B thr vcols pct rk freq_col idx r =
     (let mv = fst (check_columns B thr pct rk r vcols);
          iv = snd (check_columns B thr pct rk r vcols)
      in \<lparr> row_index = idx + 1,
           status = (if mv \<noteq> [] then ''missing'' else if iv \<noteq> [] then ''invalid'' else ''valid''),
           details = (if mv = [] \<and> iv = [] then ''All validations passed''
                      else join ''; '' ((if mv \<noteq> [] then [''Missing values in: '' @ join '', '' mv] else []) @ iv)),
           missing_columns = mv, invalid_values = iv,
           validation_columns_checked = length vcols,
           frequency_info = frequency_value_of freq_col r \<rparr>)"
  using assms
  by (simp add: validate_row_def should_validate_def Let_def split: prod.splits)

lemma check_column_append:
  "check_column B thr pct rk r acc col =
     (fst acc @ fst (check_column B thr pct rk r ([], []) col),
      snd acc @ snd (check_column B thr pct rk r ([], []) col))"
  by (simp add: check_column_def split: option.splits cell.splits)

lemma foldl_check_column:
  "foldl (check_column B thr pct rk r) acc vcols =
     (fst acc @ concat (map (\<lambda>c. fst (check_column B thr pct rk r ([], []) c)) vcols),
      snd acc @ concat (map (\<lambda>c. snd (check_column B thr pct rk r ([], []) c)) vcols))"
proof (induction vcols arbitrary: acc)
  case Nil
  then show ?case by simp
next
  case (Cons c vcols)
  show ?case
    by (simp add: Cons.IH) (subst check_column_append, simp)+
qed

lemma check_columns_concat:
  "check_columns B thr pct rk r vcols =
     (concat (map (\<lambda>c. fst (check_column B thr pct rk r ([], []) c)) vcols),
      concat (map (\<lambda>c. snd (check_column B thr pct rk r ([], []) c)) vcols))"
  by (simp add: check_columns_def foldl_check_column)

lemma check_column_missing:
  "fst (check_column B thr pct rk r ([], []) c) = (if column_missing r c then [c] else [])"
  by (simp add: check_column_def column_missing_def missing_test
           split: option.splits cell.splits)

lemma concat_map_if: "concat (map (\<lambda>c. if P c then [c] else []) xs) = filter P xs"
  by (induction xs) auto

lemma check_columns_missing:
  "fst (check_columns B thr pct rk r vcols) = filter (column_missing r) vcols"
  by (simp add: check_columns_concat check_column_missing concat_map_if)

lemma filter_nonempty_list_ex: "(filter P xs \<noteq> []) = list_ex P xs"
  by (induction xs) auto

lemma validate_row_skipped:
  assumes "frequency_value_of freq_col r = Some (Text s)" "lower s \<in> set frequency_keywords"
  shows "validate_row B thr vcols pct rk freq_col idx r =
      \<lparr> row_index = idx + 1, status = ''skipped'',
        details = ''Skipped due to frequency: '' @ s,
        missing_columns = [], invalid_values = [],
        validation_columns_checked = length vcols, frequency_info = Some (Text s) \<rparr>"
proof -
  have "s \<noteq> []" using assms(2) by (auto simp: frequency_keywords_def lower_def)
  then show ?thesis using assms
    by (simp add: validate_row_def skip_detail_def)
qed

lemma validate_rows_length: "length (validate_rows B thr vcols pct rk fc idx rs) = length rs"
  by (induction rs arbitrary: idx) auto

lemma validate_rows_nth:
  "i < length rs \<Longrightarrow>
   validate_rows B thr vcols pct rk fc idx rs ! i = validate_row B thr vcols pct rk fc (idx + i) (rs ! i)"
proof (induction rs arbitrary: idx i)
  case Nil
  then show ?case by simp
next
  case (Cons r rs)
  then show ?case by (cases i) auto
qed

lemma product_issue_results_nth:
  "i < length (rows df) \<Longrightarrow>
   \<exists>thr vcols pct rk.
     product_issue_results (validate_spreadsheet B cfg sheet (Inr df)) ! i =
       validate_row B thr vcols pct rk (find_freq_col (columns df)) i (rows df ! i)"
  by (auto simp: product_issue_results_verdicts row_verdicts_def Let_def validate_rows_nth)

lemma concat_map_removeAll:
  "f x = [] \<Longrightarrow> concat (map f (removeAll x xs)) = concat (map f xs)"
  by (induction xs) auto

lemma check_column_rank:
  assumes "col \<in> set rk" "col \<notin> set pct" "r col = Some (Number v)"
  shows "check_column B thr pct rk r (mv, iv) col =
           (mv, if num_val v > num_val thr then iv @ [rank_finding B col v thr] else iv)"
  using assms by (simp add: check_column_def)

lemma check_columns_member:
  "col \<in> set vcols \<Longrightarrow> x \<in> set (snd (check_column B thr pct rk r ([], []) col)) \<Longrightarrow>
   x \<in> set (snd (check_columns B thr pct rk r vcols))"
  by (auto simp: check_columns_concat)

lemma check_columns_removeAll:
  "check_column B thr pct rk r ([], []) col = ([], []) \<Longrightarrow>
   check_columns B thr pct rk r (removeAll col vcols) = check_columns B thr pct rk r vcols"
  by (simp add: check_columns_concat concat_map_removeAll)

lemma rank_columns_subset: "col \<in> set (get_rank_columns vcols) \<Longrightarrow> col \<in> set vcols"
  by (simp add: get_rank_columns_def)

section \<open>The row validator: claims\<close>

text \<open>
  C7. For every row that is not skipped by frequency: the missing columns of the verdict
  are the validated columns whose value is missing (null, or a text that is empty or all
  whitespace), in column order; if there is one, the status is 'missing', even when
  invalid-value findings exist; otherwise, if there is a finding, the status is
  'invalid'; otherwise it is 'valid'. In every case the findings are the verdict's
  invalid_values and are appended to its details, after the line that lists the missing
  columns when there is one.
\<close>

theorem verdict_precedence:
  "should_validate B (frequency_value_of freq_col r) \<Longrightarrow>
   (let res = validate_row B thr vcols pct rk freq_col idx r;
        findings = snd (check_columns B thr pct rk r vcols);
        missing = filter (column_missing r) vcols
    in missing_columns res = missing
     \<and> invalid_values res = findings
     \<and> status res =
         (if list_ex (column_missing r) vcols then ''missing''
          else if findings \<noteq> [] then ''invalid'' else ''valid'')
     \<and> details res =
         (if missing = [] \<and> findings = [] then ''All validations passed''
          else join ''; ''
                 ((if missing \<noteq> [] then [''Missing values in: '' @ join '', '' missing] else [])
                  @ findings)))"
  by (simp add: validate_row_validated check_columns_missing Let_def filter_nonempty_list_ex)

theorem verdict_precedence_witness:
  "should_validate example_builtins (frequency_value_of None blank_cells_row)
   \<and> map (column_missing blank_cells_row) [''Name'', ''Note'', ''Unit'', ''Rank'']
       = [True, True, False, False]
   \<and> (let res = validate_row example_builtins (PyInt 5) [''Name'', ''Note'', ''Unit'', ''Rank'']
                  [] [''Rank''] None 0 blank_cells_row
      in missing_columns res = [''Name'', ''Note'']
       \<and> invalid_values res = [''Rank: 7 exceeds rank threshold (5)'']
       \<and> status res = ''missing''
       \<and> details res = ''Missing values in: Name, Note; Rank: 7 exceeds rank threshold (5)'')"
proof -
  have h: "should_validate example_builtins (frequency_value_of None blank_cells_row)"
    by (simp add: should_validate_def frequency_value_of_def skip_detail_def)
  have c: "snd (check_columns example_builtins (PyInt 5) [] [''Rank''] blank_cells_row
                 [''Name'', ''Note'', ''Unit'', ''Rank''])
      = [''Rank: 7 exceeds rank threshold (5)'']"
    by code_simp
  have m: "column_missing blank_cells_row ''Name''" "column_missing blank_cells_row ''Note''"
    "\<not> column_missing blank_cells_row ''Unit''" "\<not> column_missing blank_cells_row ''Rank''"
    by (simp_all add: column_missing_def blank_cells_row_def is_space_def)
  show ?thesis
    using verdict_precedence
      [OF h, of "PyInt 5" "[''Name'', ''Note'', ''Unit'', ''Rank'']" "[]" "[''Rank'']" 0] h
    by (simp add: c m Let_def)
qed

text \<open>
  C8. In a table with a frequency column, a row whose frequency value, lower-cased, is
  one of the frequency-skip keywords gets the status 'skipped', the detail "Skipped due
  to frequency: <value>", empty missing_columns and invalid_values and its physical
  1-based row index, whatever its other columns hold and whatever the configuration.
\<close>

theorem frequency_skip:
  "i < length (rows df) \<Longrightarrow> find_freq_col (columns df) = Some fc \<Longrightarrow>
   (rows df ! i) fc = Some (Text s) \<Longrightarrow> lower s \<in> set frequency_keywords \<Longrightarrow>
   (let res = product_issue_results (validate_spreadsheet B cfg sheet (Inr df)) ! i
    in row_index res = i + 1
     \<and> status res = ''skipped''
     \<and> details res = ''Skipped due to frequency: '' @ s
     \<and> missing_columns res = []
     \<and> invalid_values res = []
     \<and> frequency_info res = Some (Text s))"
proof -
  assume i: "i < length (rows df)" and fc: "find_freq_col (columns df) = Some fc"
    and v: "(rows df ! i) fc = Some (Text s)" and k: "lower s \<in> set frequency_keywords"
  obtain thr vcols pct rk where
    "product_issue_results (validate_spreadsheet B cfg sheet (Inr df)) ! i =
       validate_row B thr vcols pct rk (find_freq_col (columns df)) i (rows df ! i)"
    using product_issue_results_nth [OF i] by blast
  moreover have "frequency_value_of (find_freq_col (columns df)) (rows df ! i) = Some (Text s)"
    by (simp add: frequency_value_of_def fc v)
  ultimately show ?thesis
    by (simp add: validate_row_skipped [OF _ k])
qed

theorem frequency_skip_witness:
  "(1::nat) < length (rows frequency_table)
   \<and> find_freq_col (columns frequency_table) = Some ''Frequency''
   \<and> (rows frequency_table ! 1) ''Frequency'' = Some (Text ''Quarterly'')
   \<and> lower ''Quarterly'' \<in> set frequency_keywords
   \<and> (let res = product_issue_results
                   (validate_spreadsheet example_builtins example_config None (Inr frequency_table)) ! 1
      in row_index res = 2
       \<and> status res = ''skipped''
       \<and> details res = ''Skipped due to frequency: Quarterly''
       \<and> missing_columns res = []
       \<and> invalid_values res = [])"
proof -
  have a: "(1::nat) < length (rows frequency_table)" by (simp add: frequency_table_def)
  have b: "find_freq_col (columns frequency_table) = Some ''Frequency''"
    by code_simp
  have c: "(rows frequency_table ! 1) ''Frequency'' = Some (Text ''Quarterly'')"
    by (simp add: frequency_table_def)
  have d: "lower ''Quarterly'' \<in> set frequency_keywords"
    by code_simp
  show ?thesis
    using frequency_skip [OF a b c d, of example_builtins example_config None] a b c d
    by (simp add: Let_def)
qed

text \<open>
  C10. For every table the validator returns the report of its normal path, with a
  summary, and not the report of its except clause: computing the summary raises
  nothing. total_rows is the number of rows and valid_rows the number of verdicts with
  status 'valid'. The validation_rate is the float valid_rows / total_rows * 100, each
  operation rounded to a double, when the table has rows, and the int 0 when it has
  none, which is exactly when the division would raise ZeroDivisionError.
\<close>

theorem validation_rate_total:
  "\<exists>s. summary (validate_spreadsheet B cfg sheet (Inr df)) = Some s
     \<and> sheet_name (validate_spreadsheet B cfg sheet (Inr df)) = sheet
     \<and> total_rows s = length (rows df)
     \<and> valid_rows s =
         length (filter (\<lambda>r. status r = ''valid'')
                   (product_issue_results (validate_spreadsheet B cfg sheet (Inr df))))
     \<and> validation_rate s =
         (if rows df = [] then PyInt 0
          else PyFloat (float_mul
                 (round_double (of_nat (valid_rows s) / of_nat (total_rows s))) 100))
     \<and> py_truediv (int (valid_rows s)) (int (total_rows s)) =
         (if rows df = [] then Inl ZeroDivisionError
          else Inr (round_double (of_nat (valid_rows s) / of_nat (total_rows s))))"
proof -
  obtain s where s: "validate_spreadsheet B cfg sheet (Inr df) =
          \<lparr> sheet_name = sheet,
            is_valid = list_all (\<lambda>r. status r = ''valid'') (row_verdicts B cfg df),
            errors = map RowEntry
                       (filter (\<lambda>r. status r \<in> set [''error'', ''invalid''])
                          (row_verdicts B cfg df)),
            warnings = filter (\<lambda>r. status r = ''missing'') (row_verdicts B cfg df),
            summary = Some s,
            product_issue_results = row_verdicts B cfg df \<rparr>"
    and t: "total_rows s = length (rows df)"
    and v: "valid_rows s = length (filter (\<lambda>r. status r = ''valid'') (row_verdicts B cfg df))"
    and r: "validation_rate_of (valid_rows s) (total_rows s) = Inr (validation_rate s)"
    using validate_spreadsheet_parsed [of B cfg sheet df] by blast
  have rate: "validation_rate s =
         (if rows df = [] then PyInt 0
          else PyFloat (float_mul
                 (round_double (of_nat (valid_rows s) / of_nat (total_rows s))) 100))"
    using r t by (auto simp: validation_rate_of_returns float_mul_def)
  have quot: "py_truediv (int (valid_rows s)) (int (total_rows s)) =
         (if rows df = [] then Inl ZeroDivisionError
          else Inr (round_double (of_nat (valid_rows s) / of_nat (total_rows s))))"
    using t by (simp add: py_truediv_def)
  show ?thesis
    using s t v rate quot by simp
qed

theorem validation_rate_total_witness:
  "(\<exists>s. summary (validate_spreadsheet example_builtins example_config None (Inr empty_table)) = Some s
        \<and> total_rows s = 0 \<and> valid_rows s = 0 \<and> validation_rate s = PyInt 0)
   \<and> (\<exists>s. summary (validate_spreadsheet example_builtins example_config None
                     (Inr two_of_three_table)) = Some s
        \<and> total_rows s = 3 \<and> valid_rows s = 2
        \<and> validation_rate s = PyFloat (2345624805922133 / 35184372088832))"
proof -
  have r: "rows empty_table = []" by (simp add: empty_table_def)
  have p: "product_issue_results
      (validate_spreadsheet example_builtins example_config None (Inr empty_table)) = []"
    by code_simp
  have r3: "rows two_of_three_table \<noteq> []" "length (rows two_of_three_table) = 3"
    by (simp_all add: two_of_three_table_def)
  have p3: "length (filter (\<lambda>r. status r = ''valid'') (product_issue_results
      (validate_spreadsheet example_builtins example_config None (Inr two_of_three_table)))) = 2"
    by code_simp
  have f: "float_mul (round_double (2 / 3)) 100 = 2345624805922133 / 35184372088832"
    by code_simp
  have a: "\<exists>s. summary (validate_spreadsheet example_builtins example_config None (Inr empty_table)) = Some s
        \<and> total_rows s = 0 \<and> valid_rows s = 0 \<and> validation_rate s = PyInt 0"
    using validation_rate_total [of example_builtins example_config None empty_table]
    by (auto simp: r p)
  have b: "\<exists>s. summary (validate_spreadsheet example_builtins example_config None
                     (Inr two_of_three_table)) = Some s
        \<and> total_rows s = 3 \<and> valid_rows s = 2
        \<and> validation_rate s = PyFloat (2345624805922133 / 35184372088832)"
    using validation_rate_total [of example_builtins example_config None two_of_three_table]
    by (auto simp: r3 p3 f)
  show ?thesis using a b by simp
qed

text \<open>
  C6, as the code has it. Take a validated column whose name contains 'rank', and a value
  v of it that is a Python int or float, in a row that is not skipped. If the column is
  also a percentage column (its name contains '%' or 'percent'), the pass of the column
  loop over it appends nothing, whatever v is. If it is not, the pass appends the finding
  "<column>: <value> exceeds rank threshold (<threshold>)" if v > rank_threshold and
  appends nothing otherwise; so when v > rank_threshold the finding is among the row's
  invalid values and the row is not valid, and when v \<le> rank_threshold (the boundary
  included) and no other column has a problem the row has no finding and is valid.
\<close>

theorem rank_threshold_check:
  "col \<in> set (get_rank_columns vcols) \<Longrightarrow> r col = Some (Number v) \<Longrightarrow>
   should_validate B (frequency_value_of freq_col r) \<Longrightarrow>
   (let pct = get_percentage_columns vcols; rk = get_rank_columns vcols;
        res = validate_row B thr vcols pct rk freq_col idx r
    in (col \<in> set pct \<longrightarrow> check_column B thr pct rk r (mv, iv) col = (mv, iv))
     \<and> (col \<notin> set pct \<longrightarrow>
          check_column B thr pct rk r (mv, iv) col =
            (mv, if num_val v > num_val thr then iv @ [rank_finding B col v thr] else iv)
          \<and> (num_val v > num_val thr \<longrightarrow>
               rank_finding B col v thr \<in> set (invalid_values res) \<and> status res \<noteq> ''valid'')
          \<and> (\<not> num_val v > num_val thr \<longrightarrow>
               check_columns B thr pct rk r (removeAll col vcols) = ([], []) \<longrightarrow>
               invalid_values res = [] \<and> status res = ''valid'')))"
proof -
  assume rk: "col \<in> set (get_rank_columns vcols)"
    and v: "r col = Some (Number v)"
    and sv: "should_validate B (frequency_value_of freq_col r)"
  let ?pct = "get_percentage_columns vcols" and ?rk = "get_rank_columns vcols"
  let ?res = "validate_row B thr vcols ?pct ?rk freq_col idx r"
  have skip: "check_column B thr ?pct ?rk r (mv, iv) col = (mv, iv)" if "col \<in> set ?pct"
    using that v by (simp add: check_column_def)
  have one: "\<And>mv iv. check_column B thr ?pct ?rk r (mv, iv) col =
      (mv, if num_val v > num_val thr then iv @ [rank_finding B col v thr] else iv)"
    if pct: "col \<notin> set ?pct"
    using rk pct v by (simp add: check_column_rank)
  have mem: "col \<in> set vcols" using rk by (rule rank_columns_subset)
  have res: "invalid_values ?res = snd (check_columns B thr ?pct ?rk r vcols)"
    "status ?res = (if fst (check_columns B thr ?pct ?rk r vcols) \<noteq> [] then ''missing''
        else if snd (check_columns B thr ?pct ?rk r vcols) \<noteq> [] then ''invalid'' else ''valid'')"
    by (simp_all add: validate_row_validated [OF sv] Let_def)
  have above: "rank_finding B col v thr \<in> set (invalid_values ?res) \<and> status ?res \<noteq> ''valid''"
    if pct: "col \<notin> set ?pct" and gt: "num_val v > num_val thr"
  proof -
    have "rank_finding B col v thr \<in> set (snd (check_column B thr ?pct ?rk r ([], []) col))"
      using one [OF pct, of "[]" "[]"] gt by simp
    then have "rank_finding B col v thr \<in> set (snd (check_columns B thr ?pct ?rk r vcols))"
      using check_columns_member [OF mem] by blast
    then show ?thesis
      by (auto simp: res)
  qed
  have below: "invalid_values ?res = [] \<and> status ?res = ''valid''"
    if pct: "col \<notin> set ?pct" and le: "\<not> num_val v > num_val thr"
      and others: "check_columns B thr ?pct ?rk r (removeAll col vcols) = ([], [])"
  proof -
    have "check_column B thr ?pct ?rk r ([], []) col = ([], [])"
      using one [OF pct, of "[]" "[]"] le by simp
    then have "check_columns B thr ?pct ?rk r vcols = ([], [])"
      using check_columns_removeAll [of B thr ?pct ?rk r col vcols] others by simp
    then show ?thesis by (simp add: res)
  qed
  show ?thesis
    using skip one above below by (simp add: Let_def)
qed

theorem rank_threshold_check_witness:
  "''Rank'' \<in> set (get_rank_columns [''Name'', ''Rank''])
   \<and> ''Rank'' \<notin> set (get_percentage_columns [''Name'', ''Rank''])
   \<and> rank_row_7 ''Rank'' = Some (Number (PyInt 7))
   \<and> should_validate example_builtins (frequency_value_of None rank_row_7)
   \<and> num_val (PyInt 7) > num_val (PyInt 5)
   \<and> (let res = validate_row example_builtins (PyInt 5) [''Name'', ''Rank'']
                   (get_percentage_columns [''Name'', ''Rank'']) (get_rank_columns [''Name'', ''Rank''])
                   None 0 rank_row_7
      in ''Rank: 7 exceeds rank threshold (5)'' \<in> set (invalid_values res) \<and> status res \<noteq> ''valid'')
   \<and> rank_row_5 ''Rank'' = Some (Number (PyInt 5))
   \<and> should_validate example_builtins (frequency_value_of None rank_row_5)
   \<and> \<not> num_val (PyInt 5) > num_val (PyInt 5)
   \<and> check_columns example_builtins (PyInt 5)
        (get_percentage_columns [''Name'', ''Rank'']) (get_rank_columns [''Name'', ''Rank''])
        rank_row_5 (removeAll ''Rank'' [''Name'', ''Rank'']) = ([], [])
   \<and> (let res = validate_row example_builtins (PyInt 5) [''Name'', ''Rank'']
                   (get_percentage_columns [''Name'', ''Rank'']) (get_rank_columns [''Name'', ''Rank''])
                   None 0 rank_row_5
      in invalid_values res = [] \<and> status res = ''valid'')
   \<and> ''Rank %'' \<in> set (get_rank_columns [''Name'', ''Rank %''])
   \<and> ''Rank %'' \<in> set (get_percentage_columns [''Name'', ''Rank %''])
   \<and> rank_percent_row ''Rank %'' = Some (Number (PyInt 7))
   \<and> should_validate example_builtins (frequency_value_of None rank_percent_row)
   \<and> check_column example_builtins (PyInt 5)
        (get_percentage_columns [''Name'', ''Rank %'']) (get_rank_columns [''Name'', ''Rank %''])
        rank_percent_row ([], []) ''Rank %'' = ([], [])"
proof -
  have rk: "''Rank'' \<in> set (get_rank_columns [''Name'', ''Rank''])" by code_simp
  have pct: "''Rank'' \<notin> set (get_percentage_columns [''Name'', ''Rank''])" by code_simp
  have v7: "rank_row_7 ''Rank'' = Some (Number (PyInt 7))" by (simp add: rank_row_7_def)
  have v5: "rank_row_5 ''Rank'' = Some (Number (PyInt 5))" by (simp add: rank_row_5_def)
  have s7: "should_validate example_builtins (frequency_value_of None rank_row_7)"
    by (simp add: should_validate_def frequency_value_of_def skip_detail_def)
  have s5: "should_validate example_builtins (frequency_value_of None rank_row_5)"
    by (simp add: should_validate_def frequency_value_of_def skip_detail_def)
  have f: "rank_finding example_builtins ''Rank'' (PyInt 7) (PyInt 5) = ''Rank: 7 exceeds rank threshold (5)''"
    by code_simp
  have o: "check_columns example_builtins (PyInt 5)
        (get_percentage_columns [''Name'', ''Rank'']) (get_rank_columns [''Name'', ''Rank''])
        rank_row_5 (removeAll ''Rank'' [''Name'', ''Rank'']) = ([], [])"
    by code_simp
  have a: "let res = validate_row example_builtins (PyInt 5) [''Name'', ''Rank'']
                   (get_percentage_columns [''Name'', ''Rank'']) (get_rank_columns [''Name'', ''Rank''])
                   None 0 rank_row_7
      in ''Rank: 7 exceeds rank threshold (5)'' \<in> set (invalid_values res) \<and> status res \<noteq> ''valid''"
    using rank_threshold_check [OF rk v7 s7, of "PyInt 5" 0 "[]" "[]"] pct f
    by (simp add: Let_def)
  have b: "let res = validate_row example_builtins (PyInt 5) [''Name'', ''Rank'']
                   (get_percentage_columns [''Name'', ''Rank'']) (get_rank_columns [''Name'', ''Rank''])
                   None 0 rank_row_5
      in invalid_values res = [] \<and> status res = ''valid''"
    using rank_threshold_check [OF rk v5 s5, of "PyInt 5" 0 "[]" "[]"] pct o
    by (simp add: Let_def)
  have rkp: "''Rank %'' \<in> set (get_rank_columns [''Name'', ''Rank %''])" by code_simp
  have pctp: "''Rank %'' \<in> set (get_percentage_columns [''Name'', ''Rank %''])" by code_simp
  have vp: "rank_percent_row ''Rank %'' = Some (Number (PyInt 7))"
    by (simp add: rank_percent_row_def)
  have sp: "should_validate example_builtins (frequency_value_of None rank_percent_row)"
    by (simp add: should_validate_def frequency_value_of_def skip_detail_def)
  have c: "check_column example_builtins (PyInt 5)
        (get_percentage_columns [''Name'', ''Rank %'']) (get_rank_columns [''Name'', ''Rank %''])
        rank_percent_row ([], []) ''Rank %'' = ([], [])"
    using rank_threshold_check [OF rkp vp sp, of "PyInt 5" 0 "[]" "[]"] pctp
    by (simp add: Let_def)
  show ?thesis using rk pct v7 v5 s7 s5 o a b rkp pctp vp sp c by simp
qed

text \<open>
  C6 as stated fails on a rank column that is also a percentage column: the percentage
  branch of the chain comes first and has no check. With the default configuration, the
  column 'Rank %' is among the rank columns, the value 7 exceeds the threshold 5, and the
  row has no finding and is valid.
\<close>

theorem rank_percent_column_unchecked:
  "''Rank %'' \<in> set (get_rank_columns (get_validation_columns default_skip_columns (columns rank_percent_table)))
   \<and> (rows rank_percent_table ! 0) ''Rank %'' = Some (Number (PyInt 7))
   \<and> num_val (PyInt 7) > num_val (PyInt 5)
   \<and> map invalid_values (product_issue_results
        (validate_spreadsheet example_builtins example_config None (Inr rank_percent_table))) = [[]]
   \<and> map status (product_issue_results
        (validate_spreadsheet example_builtins example_config None (Inr rank_percent_table))) = [''valid'']"
  by code_simp

section \<open>The run over all sheets: lemmas\<close>

lemma dispatch_calls: "length (snd (dispatch N fp results v p agg calls)) = length calls + 1"
  by (simp add: dispatch_def Let_def)

lemma run_all_sheets_call_count:
  assumes "periodic_loop now scheds False = Inr p"
  shows "length (snd (run_all_sheets B cfg N scheds now fp (Inr sheets) calls)) =
           length calls + length sheets + 1"
proof -
  obtain results where "run_all_sheets B cfg N scheds now fp (Inr sheets) calls =
     dispatch N fp results (sheets_valid B cfg sheets) p
       (make_aggregated fp (map fst sheets) (sheets_valid B cfg sheets)
          (merged_errors B cfg sheets) p)
       (calls @ map (sheet_call B cfg) sheets)"
    using run_all_sheets_dispatch [OF assms] by blast
  then show ?thesis by (simp add: dispatch_calls)
qed

lemma status_cases:
  "status (validate_row B thr vcols pct rk fc idx r) \<in> {''valid'', ''missing'', ''invalid'', ''skipped''}"
  by (simp add: validate_row_def Let_def split: option.splits prod.splits)

lemma validate_rows_status:
  "r' \<in> set (validate_rows B thr vcols pct rk fc idx rs) \<Longrightarrow>
   status r' \<in> {''valid'', ''missing'', ''invalid'', ''skipped''}"
proof (induction rs arbitrary: idx)
  case Nil
  then show ?case by simp
next
  case (Cons r rs)
  then show ?case using status_cases [of B thr vcols pct rk fc idx r] by auto
qed

lemma errors_are_invalid_rows:
  "errors (validate_spreadsheet B cfg sheet (Inr df)) =
     map RowEntry (filter (\<lambda>r. status r = ''invalid'')
       (product_issue_results (validate_spreadsheet B cfg sheet (Inr df))))"
proof -
  have "filter (\<lambda>r. status r \<in> set [''error'', ''invalid'']) rs = filter (\<lambda>r. status r = ''invalid'') rs"
    if "\<forall>r\<in>set rs. status r \<in> {''valid'', ''missing'', ''invalid'', ''skipped''}" for rs :: "row_result list"
    using that by (intro filter_cong) auto
  then show ?thesis
    using validate_rows_status
    by (simp add: errors_verdicts product_issue_results_verdicts row_verdicts_def Let_def
          del: set_simps)
qed

lemma run_all_sheets_outcome:
  "periodic_loop now scheds False = Inr p \<Longrightarrow>
   (let res = fst (run_all_sheets B cfg N scheds now fp (Inr sheets) calls);
        calls' = snd (run_all_sheets B cfg N scheds now fp (Inr sheets) calls);
        all_valid = sheets_valid B cfg sheets
    in map_option agg_is_valid (aggregated res) = Some all_valid
     \<and> map_option periodic_trigger (aggregated res) = Some p
     \<and> (\<not> all_valid \<or> p \<longrightarrow>
          notification_type res = Some ''missing_data_aggregated''
          \<and> workflow_status res = ''completed_with_issues''
          \<and> map_option message (aggregated res) = Some (Some (issues_message fp))
          \<and> (\<exists>agg. aggregated res = Some agg
                \<and> calls' = calls @ map (sheet_call B cfg) sheets
                            @ [send_missing_data_notification (AggregateReport agg)]))
     \<and> (all_valid \<and> \<not> p \<longrightarrow>
          notification_type res = Some ''completion_aggregated''
          \<and> workflow_status res = ''completed_success''
          \<and> map_option message (aggregated res) = Some (Some (success_message fp))
          \<and> (\<exists>agg. aggregated res = Some agg
                \<and> calls' = calls @ map (sheet_call B cfg) sheets
                            @ [send_completion_notification (AggregateReport agg)])))"
proof -
  assume p: "periodic_loop now scheds False = Inr p"
  obtain results where "run_all_sheets B cfg N scheds now fp (Inr sheets) calls =
     dispatch N fp results (sheets_valid B cfg sheets) p
       (make_aggregated fp (map fst sheets) (sheets_valid B cfg sheets)
          (merged_errors B cfg sheets) p)
       (calls @ map (sheet_call B cfg) sheets)"
    using run_all_sheets_dispatch [OF p] by blast
  then show ?thesis
    by (simp add: dispatch_def make_aggregated_def Let_def)
qed

lemma validate_row_not_validated:
  "\<not> should_validate B (frequency_value_of fc r) \<Longrightarrow>
   status (validate_row B thr vcols pct rk fc idx r) = ''skipped''"
  by (auto simp: validate_row_def should_validate_def Let_def)

lemma validate_rows_all_skipped:
  "\<forall>r\<in>set rs. \<not> should_validate B (frequency_value_of fc r) \<Longrightarrow>
   \<forall>r'\<in>set (validate_rows B thr vcols pct rk fc idx rs). status r' = ''skipped''"
  by (induction rs arbitrary: idx) (auto simp: validate_row_not_validated)

lemma filter_all: "\<forall>x\<in>set xs. P x \<Longrightarrow> filter P xs = xs"
  by (induction xs) auto

section \<open>The run over all sheets: claims\<close>

text \<open>
  C1 fails on the code. \<open>run_all_sheets\<close> calls \<open>run\<close> for every sheet, and \<open>run\<close> sends
  a notification of its own before the summary is sent: a run over n sheets that reaches
  the summary makes n + 1 calls to the notifier (lemma \<open>run_all_sheets_call_count\<close>).
  With two invalid sheets and schedules that are due, three missing-data notifications
  go out: one for each sheet and one for the aggregate. The same three go out with the
  schedule of the validator, which is empty.
\<close>

theorem one_notification_per_sheet_and_one_more:
  "map call_summary
     (snd (run_all_sheets example_builtins example_config always_sent three_schedules march_25
             ''data/uploaded.xlsx''
             (Inr [(''Sheet1'', Inr missing_table), (''Sheet2'', Inr mixed_table)]) []))
   = [(''send_missing_data_notification'', Some ''Sheet1''),
      (''send_missing_data_notification'', Some ''Sheet2''),
      (''send_missing_data_notification'', None)]
   \<and> map call_summary
     (snd (workflow_run_all_sheets example_builtins example_config always_sent march_25
             ''data/uploaded.xlsx''
             (Inr [(''Sheet1'', Inr missing_table), (''Sheet2'', Inr mixed_table)]) []))
   = [(''send_missing_data_notification'', Some ''Sheet1''),
      (''send_missing_data_notification'', Some ''Sheet2''),
      (''send_missing_data_notification'', None)]"
  by code_simp

text \<open>
  C2 fails on the code. The merged error list is built from the 'errors' entry of each
  sheet report, which holds the verdicts with status 'invalid' only (lemma
  \<open>errors_are_invalid_rows\<close>); verdicts with status 'missing' or 'skipped' are left out.
  For a sheet with a valid, a missing, a skipped and an invalid row the merged list has
  the invalid row alone, and for a sheet whose only problem is a missing value the run
  is reported invalid with an empty error list.
\<close>

theorem merged_errors_omit_missing_and_skipped:
  "map (\<lambda>r. (row_index r, status r))
     (product_issue_results
        (validate_spreadsheet example_builtins example_config (Some ''Sheet1'') (Inr mixed_table)))
     = [(1, ''valid''), (2, ''missing''), (3, ''skipped''), (4, ''invalid'')]
   \<and> map_option (map entry_summary \<circ> agg_errors)
       (aggregated (fst (run_all_sheets example_builtins example_config always_sent [] march_25
          ''data/uploaded.xlsx'' (Inr [(''Sheet1'', Inr mixed_table)]) [])))
     = Some [(''Sheet1'', Some (4, ''invalid''))]
   \<and> map_option (map entry_summary \<circ> agg_errors)
       (aggregated (fst (run_all_sheets example_builtins example_config always_sent [] march_25
          ''data/uploaded.xlsx'' (Inr [(''Sheet1'', Inr missing_table)]) [])))
     = Some []
   \<and> map_option agg_is_valid
       (aggregated (fst (run_all_sheets example_builtins example_config always_sent [] march_25
          ''data/uploaded.xlsx'' (Inr [(''Sheet1'', Inr missing_table)]) [])))
     = Some False"
  by code_simp



text \<open>
  C9. The is_valid flag of a table report holds exactly when every row verdict has
  status 'valid', and error_rows counts the verdicts with any other status. So a row
  skipped by frequency makes the table invalid; a table with at least one row, all of
  them skipped, is invalid with error_rows equal to its number of rows; and a run over
  sheets one of which is invalid, when it reaches the decision, sends the
  missing/invalid-data summary with status 'completed_with_issues'.
\<close>

theorem skipped_rows_make_table_invalid:
  "(let vr = validate_spreadsheet B cfg sheet (Inr df);
        results = product_issue_results vr
    in (is_valid vr \<longleftrightarrow> (\<forall>r\<in>set results. status r = ''valid''))
     \<and> map_option error_rows (summary vr)
         = Some (length (filter (\<lambda>r. status r \<noteq> ''valid'') results))
     \<and> ((\<exists>r\<in>set results. status r = ''skipped'') \<longrightarrow> \<not> is_valid vr)
     \<and> (rows df \<noteq> []
          \<and> (\<forall>r\<in>set (rows df).
                \<not> should_validate B (frequency_value_of (find_freq_col (columns df)) r)) \<longrightarrow>
          \<not> is_valid vr \<and> map_option error_rows (summary vr) = Some (length (rows df))))
   \<and> (sp \<in> set sheets \<and> \<not> is_valid (sheet_report B cfg sp)
        \<and> periodic_loop now scheds False = Inr p \<longrightarrow>
      (let res = fst (run_all_sheets B cfg N scheds now fp (Inr sheets) calls);
           calls' = snd (run_all_sheets B cfg N scheds now fp (Inr sheets) calls)
       in map_option agg_is_valid (aggregated res) = Some False
        \<and> notification_type res = Some ''missing_data_aggregated''
        \<and> workflow_status res = ''completed_with_issues''
        \<and> (\<exists>agg. last calls' = send_missing_data_notification (AggregateReport agg))))"
proof (intro conjI)
  let ?vr = "validate_spreadsheet B cfg sheet (Inr df)"
  let ?results = "product_issue_results ?vr"
  have iv: "is_valid ?vr \<longleftrightarrow> (\<forall>r\<in>set ?results. status r = ''valid'')"
    by (simp add: is_valid_verdicts product_issue_results_verdicts list_all_iff)
  have er: "map_option error_rows (summary ?vr)
         = Some (length (filter (\<lambda>r. status r \<noteq> ''valid'') ?results))"
    by (simp add: error_rows_verdicts product_issue_results_verdicts)
  have sk: "(\<exists>r\<in>set ?results. status r = ''skipped'') \<longrightarrow> \<not> is_valid ?vr"
    using iv by auto
  have all: "\<not> is_valid ?vr \<and> map_option error_rows (summary ?vr) = Some (length (rows df))"
    if ne: "rows df \<noteq> []"
      and sv: "\<forall>r\<in>set (rows df).
                \<not> should_validate B (frequency_value_of (find_freq_col (columns df)) r)"
  proof -
    have s: "\<forall>r'\<in>set ?results. status r' = ''skipped''"
      using validate_rows_all_skipped [OF sv]
      by (simp add: product_issue_results_verdicts row_verdicts_def Let_def)
    have l: "length ?results = length (rows df)"
      by (simp add: product_issue_results_verdicts row_verdicts_def Let_def validate_rows_length)
    then have "?results \<noteq> []" using ne by auto
    then obtain r' where "r' \<in> set ?results" by (cases ?results) auto
    then have "\<not> is_valid ?vr" using s sk by auto
    moreover have "filter (\<lambda>r. status r \<noteq> ''valid'') ?results = ?results"
      using s by (intro filter_all) auto
    ultimately show ?thesis using er l by simp
  qed
  show "let vr = ?vr; results = product_issue_results vr
    in (is_valid vr \<longleftrightarrow> (\<forall>r\<in>set results. status r = ''valid''))
     \<and> map_option error_rows (summary vr)
         = Some (length (filter (\<lambda>r. status r \<noteq> ''valid'') results))
     \<and> ((\<exists>r\<in>set results. status r = ''skipped'') \<longrightarrow> \<not> is_valid vr)
     \<and> (rows df \<noteq> []
          \<and> (\<forall>r\<in>set (rows df).
                \<not> should_validate B (frequency_value_of (find_freq_col (columns df)) r)) \<longrightarrow>
          \<not> is_valid vr \<and> map_option error_rows (summary vr) = Some (length (rows df)))"
    unfolding Let_def using iv er sk all by blast
next
  show "sp \<in> set sheets \<and> \<not> is_valid (sheet_report B cfg sp)
        \<and> periodic_loop now scheds False = Inr p \<longrightarrow>
      (let res = fst (run_all_sheets B cfg N scheds now fp (Inr sheets) calls);
           calls' = snd (run_all_sheets B cfg N scheds now fp (Inr sheets) calls)
       in map_option agg_is_valid (aggregated res) = Some False
        \<and> notification_type res = Some ''missing_data_aggregated''
        \<and> workflow_status res = ''completed_with_issues''
        \<and> (\<exists>agg. last calls' = send_missing_data_notification (AggregateReport agg)))"
  proof
    assume h: "sp \<in> set sheets \<and> \<not> is_valid (sheet_report B cfg sp)
        \<and> periodic_loop now scheds False = Inr p"
    then have nv: "\<not> sheets_valid B cfg sheets"
      by (auto simp: sheets_valid_def list_all_iff)
    from h have p: "periodic_loop now scheds False = Inr p" by simp
    show "let res = fst (run_all_sheets B cfg N scheds now fp (Inr sheets) calls);
           calls' = snd (run_all_sheets B cfg N scheds now fp (Inr sheets) calls)
       in map_option agg_is_valid (aggregated res) = Some False
        \<and> notification_type res = Some ''missing_data_aggregated''
        \<and> workflow_status res = ''completed_with_issues''
        \<and> (\<exists>agg. last calls' = send_missing_data_notification (AggregateReport agg))"
      using run_all_sheets_outcome [OF p, of B cfg N fp sheets calls] nv
      by (auto simp: Let_def)
  qed
qed

theorem skipped_rows_make_table_invalid_witness:
  "rows skipped_table \<noteq> []
   \<and> list_all (\<lambda>r. \<not> should_validate example_builtins
             (frequency_value_of (find_freq_col (columns skipped_table)) r)) (rows skipped_table)
   \<and> \<not> is_valid (validate_spreadsheet example_builtins example_config (Some ''Sheet1'')
                    (Inr skipped_table))
   \<and> map_option error_rows
        (summary (validate_spreadsheet example_builtins example_config (Some ''Sheet1'')
                    (Inr skipped_table))) = Some 2
   \<and> (''Sheet1'', Inr skipped_table) \<in> set [(''Sheet1'', Inr skipped_table)]
   \<and> \<not> is_valid (sheet_report example_builtins example_config (''Sheet1'', Inr skipped_table))
   \<and> periodic_loop march_25 [] False = Inr False
   \<and> notification_type (fst (run_all_sheets example_builtins example_config always_sent []
        march_25 ''data/uploaded.xlsx'' (Inr [(''Sheet1'', Inr skipped_table)]) []))
       = Some ''missing_data_aggregated''
   \<and> workflow_status (fst (run_all_sheets example_builtins example_config always_sent []
        march_25 ''data/uploaded.xlsx'' (Inr [(''Sheet1'', Inr skipped_table)]) []))
       = ''completed_with_issues''"
proof -
  have ne: "rows skipped_table \<noteq> []" by (simp add: skipped_table_def)
  have len: "length (rows skipped_table) = 2" by (simp add: skipped_table_def)
  have sk: "list_all (\<lambda>r. \<not> should_validate example_builtins
             (frequency_value_of (find_freq_col (columns skipped_table)) r)) (rows skipped_table)"
    by code_simp
  then have sk': "\<forall>r\<in>set (rows skipped_table).
         \<not> should_validate example_builtins
             (frequency_value_of (find_freq_col (columns skipped_table)) r)"
    by (simp add: list_all_iff)
  have none: "periodic_loop march_25 [] False = Inr False" by simp
  note th = skipped_rows_make_table_invalid
    [of example_builtins example_config "Some ''Sheet1''" skipped_table
        "(''Sheet1'', Inr skipped_table)" "[(''Sheet1'', Inr skipped_table)]"
        march_25 "[]" False always_sent "''data/uploaded.xlsx''" "[]"]
  have a: "\<not> is_valid (validate_spreadsheet example_builtins example_config (Some ''Sheet1'')
                    (Inr skipped_table))
     \<and> map_option error_rows
        (summary (validate_spreadsheet example_builtins example_config (Some ''Sheet1'')
                    (Inr skipped_table))) = Some 2"
    using th ne sk' len unfolding Let_def by metis
  then have b: "\<not> is_valid (sheet_report example_builtins example_config (''Sheet1'', Inr skipped_table))"
    by (simp add: sheet_report_def)
  have c: "notification_type (fst (run_all_sheets example_builtins example_config always_sent []
        march_25 ''data/uploaded.xlsx'' (Inr [(''Sheet1'', Inr skipped_table)]) []))
       = Some ''missing_data_aggregated''
     \<and> workflow_status (fst (run_all_sheets example_builtins example_config always_sent []
        march_25 ''data/uploaded.xlsx'' (Inr [(''Sheet1'', Inr skipped_table)]) []))
       = ''completed_with_issues''"
    using th b none unfolding Let_def by simp
  show ?thesis using ne sk a b none c by simp
qed


end
